theory Spec2Isabelle
  imports Main "HOL-Library.Word" "HOL-Library.Sublist"
begin

section \<open>JavaScript strings\<close>

text \<open>
  A JavaScript string is a sequence of UTF-16 code units. \<open>split\<close>, \<open>join\<close>,
  \<open>trim\<close> and \<open>includes\<close> all work on code units, and every separator and
  white space character involved is a single code unit of the Basic Multilingual Plane.
\<close>

type_synonym jschar = "16 word"
type_synonym jsstring = "jschar list"

definition js :: "string \<Rightarrow> jsstring" where
  \<comment> \<open>an ASCII literal of the source, as code units\<close>
  "js s = map of_char s"

definition colon :: jschar where
  "colon = 0x3A"

definition newline :: jschar where
  "newline = 0x0A"

definition isWhiteSpace :: "jschar \<Rightarrow> bool" where
  \<comment> \<open>ECMAScript WhiteSpace and LineTerminator, the code points \<open>trim\<close> strips\<close>
  "isWhiteSpace c \<longleftrightarrow>
     c \<in> {0x0009, 0x000A, 0x000B, 0x000C, 0x000D, 0x0020, 0x00A0, 0x1680,
          0x2028, 0x2029, 0x202F, 0x205F, 0x3000, 0xFEFF}
     \<or> (0x2000 \<le> c \<and> c \<le> 0x200A)"

definition trim :: "jsstring \<Rightarrow> jsstring" where
  \<comment> \<open>\<open>String.prototype.trim\<close>\<close>
  "trim s = rev (dropWhile isWhiteSpace (rev (dropWhile isWhiteSpace s)))"

fun split_str :: "'a \<Rightarrow> 'a list \<Rightarrow> 'a list list" where
  \<comment> \<open>\<open>s.split(sep)\<close> for a separator of one code unit; \<open>''''.split(sep)\<close> is \<open>['''']\<close>\<close>
  "split_str sep [] = [] # []"
| "split_str sep (c # cs) =
     (if c = sep then [] # split_str sep cs
      else (case split_str sep cs of [] \<Rightarrow> [c] # [] | p # ps \<Rightarrow> (c # p) # ps))"

fun join_str :: "'a \<Rightarrow> 'a list list \<Rightarrow> 'a list" where
  \<comment> \<open>\<open>parts.join(sep)\<close>\<close>
  "join_str sep [] = []"
| "join_str sep [p] = p"
| "join_str sep (p # q # ps) = p @ sep # join_str sep (q # ps)"

fun includes_str :: "'a list \<Rightarrow> 'a list \<Rightarrow> bool" where
  \<comment> \<open>\<open>s.includes(needle)\<close>\<close>
  "includes_str [] needle = (needle = [])"
| "includes_str (c # cs) needle = (prefix needle (c # cs) \<or> includes_str cs needle)"

section \<open>Thrown values\<close>

datatype js_error =
    TypeError jsstring
  | Error jsstring
  | NonError  \<comment> \<open>a thrown value that has no \<open>message\<close> property\<close>

fun message :: "js_error \<Rightarrow> jsstring option" where
  "message (TypeError m) = Some m"
| "message (Error m) = Some m"
| "message NonError = None"

section \<open>The response parser\<close>

record flashcard =
  card_term :: jsstring
  card_definition :: jsstring

definition trim_at :: "jsstring list \<Rightarrow> nat \<Rightarrow> js_error + jsstring" where
  \<comment> \<open>\<open>parts[i].trim()\<close>: reading past the end gives \<open>undefined\<close>, whose \<open>trim\<close> raises\<close>
  "trim_at parts i =
     (if i < length parts then Inr (trim (parts ! i))
      else Inl (TypeError (js ''Cannot read properties of undefined'')))"

definition parseLine :: "jsstring \<Rightarrow> js_error + flashcard option" where
  \<comment> \<open>the callback of \<open>.map\<close>; \<open>None\<close> is its \<open>null\<close>\<close>
  "parseLine line =
     (let parts = split_str colon line in
      if 2 \<le> length parts then
        (case trim_at parts 0 of
           Inl e \<Rightarrow> Inl e
         | Inr t0 \<Rightarrow>
             if t0 \<noteq> [] then
               (case trim_at parts 0 of
                  Inl e \<Rightarrow> Inl e
                | Inr term0 \<Rightarrow>
                    let definition0 = trim (join_str colon (drop 1 parts)) in
                    if definition0 \<noteq> []
                    then Inr (Some \<lparr>card_term = term0, card_definition = definition0\<rparr>)
                    else Inr None)
             else Inr None)
      else Inr None)"

fun map_lines :: "('a \<Rightarrow> js_error + 'b) \<Rightarrow> 'a list \<Rightarrow> js_error + 'b list" where
  \<comment> \<open>\<open>Array.prototype.map\<close> with a callback that may raise: the first raise ends it\<close>
  "map_lines f [] = Inr []"
| "map_lines f (x # xs) =
     (case f x of
        Inl e \<Rightarrow> Inl e
      | Inr y \<Rightarrow> (case map_lines f xs of Inl e \<Rightarrow> Inl e | Inr ys \<Rightarrow> Inr (y # ys)))"

definition parseResponse :: "jsstring \<Rightarrow> js_error + flashcard list" where
  \<comment> \<open>\<open>responseText.split('\n').map(...).filter(card => card !== null)\<close>\<close>
  "parseResponse responseText =
     (case map_lines parseLine (split_str newline responseText) of
        Inl e \<Rightarrow> Inl e
      | Inr cards \<Rightarrow> Inr (map the (filter (\<lambda>card. card \<noteq> None) cards)))"

text \<open>
  The parsing step as the specification words it: a line is a candidate pair iff it splits
  into at least two segments and the first segment, trimmed, is non-empty; the term is the
  first segment trimmed, the definition the remaining segments rejoined with a colon and
  trimmed; a candidate whose definition is empty is discarded.
\<close>

definition spec_card :: "jsstring \<Rightarrow> flashcard option" where
  "spec_card line =
     (let segments = split_str colon line in
      if 2 \<le> length segments \<and> trim (hd segments) \<noteq> []
         \<and> trim (join_str colon (tl segments)) \<noteq> []
      then Some \<lparr>card_term = trim (hd segments),
                 card_definition = trim (join_str colon (tl segments))\<rparr>
      else None)"

subsection \<open>Well-formed responses\<close>

text \<open>
  A response line of the shape \<open>Term: Definition\<close>, and the text made of such lines. A
  text is plain when it is non-empty, has no white space at either end and sits on one line.
\<close>

definition plain_text :: "jsstring \<Rightarrow> bool" where
  "plain_text s \<longleftrightarrow>
     s \<noteq> [] \<and> \<not> isWhiteSpace (hd s) \<and> \<not> isWhiteSpace (last s) \<and> newline \<notin> set s"

definition pair_line :: "jsstring \<times> jsstring \<Rightarrow> jsstring" where
  "pair_line p = fst p @ js '': '' @ snd p"

definition pair_card :: "jsstring \<times> jsstring \<Rightarrow> flashcard" where
  "pair_card p = \<lparr>card_term = fst p, card_definition = snd p\<rparr>"

definition well_formed_pair :: "jsstring \<times> jsstring \<Rightarrow> bool" where
  "well_formed_pair p \<longleftrightarrow> plain_text (fst p) \<and> colon \<notin> set (fst p) \<and> plain_text (snd p)"

section \<open>The page and its collaborators\<close>

text \<open>
  The client object of the completion service holds the key it was built from. Building
  it may raise; a request to it resolves with a result whose \<open>text\<close> may be
  undefined, or rejects with a thrown value. Both are parameters of the handlers below.
\<close>

datatype client = GoogleGenAI jsstring

datatype response = Resolved "jsstring option" | Rejected js_error

type_synonym constructor = "jsstring \<Rightarrow> js_error + client"
type_synonym service = "client \<Rightarrow> jsstring \<times> jsstring \<Rightarrow> response"

text \<open>
  The mutable state the handlers touch: the module variable \<open>ai\<close>, the session store,
  the two inputs, the message line, the cards on display and the visibility flags. The last
  field records the requests sent to the completion service, as (model, contents).
\<close>

record page =
  ai :: "client option"
  sessionStorage :: "jsstring \<rightharpoonup> jsstring"
  topicInput :: jsstring
  apiKeyInput :: jsstring
  errorMessage :: jsstring
  flashcardsContainer :: "flashcard list"
  exampleMessage_hidden :: bool
  apiKeySection_hidden :: bool
  appContent_hidden :: bool
  apiKeyModal_open :: bool
  generateButton_disabled :: bool
  buttonText_hidden :: bool
  spinner_hidden :: bool
  alerts :: "jsstring list"
  requests :: "(jsstring \<times> jsstring) list"

definition API_KEY_SESSION_STORAGE_KEY :: jsstring where
  "API_KEY_SESSION_STORAGE_KEY = js ''GEMINI_API_KEY''"

definition model_id :: jsstring where
  "model_id = js ''gemini-2.5-flash''"

definition invalid_key_marker :: jsstring where
  "invalid_key_marker = js ''API key not valid''"

definition renderFlashcards :: "flashcard list \<Rightarrow> page \<Rightarrow> page" where
  \<comment> \<open>clears the container, then appends one card element per flashcard, in order\<close>
  "renderFlashcards cards s = s\<lparr>flashcardsContainer := cards\<rparr>"

definition nullish_text :: "jsstring option \<Rightarrow> jsstring" where
  \<comment> \<open>\<open>result.text\<close> when it is defined, the empty string otherwise\<close>
  "nullish_text t = (case t of None \<Rightarrow> [] | Some text \<Rightarrow> text)"

definition unknown_error :: jsstring where
  "unknown_error = js ''An unknown error occurred''"

definition message_or_unknown :: "js_error \<Rightarrow> jsstring" where
  \<comment> \<open>the thrown value's \<open>message\<close> when it has a non-empty one\<close>
  "message_or_unknown error =
     (case message error of
        None \<Rightarrow> unknown_error
      | Some m \<Rightarrow> if m \<noteq> [] then m else unknown_error)"

subsection \<open>The messages shown to the user\<close>

definition msg_EmptyTopic :: jsstring where
  "msg_EmptyTopic = js ''Please enter a topic or some terms and definitions.''"

definition msg_NotInitialized :: jsstring where
  "msg_NotInitialized = js ''API client is not initialized. Please set your API key.''"

definition msg_EmptySecret :: jsstring where
  "msg_EmptySecret = js ''Please enter a valid API key.''"

definition msg_InitError :: jsstring where
  "msg_InitError =
     js ''Failed to initialize with the provided API key. Please check the key and try again.''"

definition error_prefix :: jsstring where
  "error_prefix = js ''An error occurred: ''"

definition index_msg_EmptyResponse :: jsstring where
  "index_msg_EmptyResponse =
     js ''Failed to generate flashcards or received an empty response. Please try again.''"

definition index_msg_NoValidFlashcards :: jsstring where
  "index_msg_NoValidFlashcards =
     js ''No valid flashcards could be generated from the response. Please check the format.''"

definition index_msg_CredentialInvalid :: jsstring where
  "index_msg_CredentialInvalid =
     js ''Your API key is not valid. Please click \"Change Key\" to enter a new one.''"

definition part0_msg_EmptyResponse :: jsstring where
  "part0_msg_EmptyResponse = js ''Received an empty response from the API.''"

definition part0_msg_NoValidFlashcards :: jsstring where
  "part0_msg_NoValidFlashcards =
     js ''Could not parse any valid flashcards from the response. The topic might be too ambiguous. Please try again with a more specific topic.''"

definition part0_msg_CredentialInvalid :: jsstring where
  "part0_msg_CredentialInvalid =
     js ''Your API key is not valid. Please click \"Change API Key\" to enter a new one.''"

subsection \<open>The handlers of \<open>index.tsx\<close>\<close>

definition index_prompt :: "jsstring \<Rightarrow> jsstring" where
  "index_prompt topic =
     js ''Generate a list of flashcards for the topic of \"'' @ topic
     @ js ''\". Each flashcard should have a term and a concise definition. Format the output as a list of \"Term: Definition\" pairs, with each pair on a new line. Ensure terms and definitions are distinct and clearly separated by a single colon. Here's an example output:''
     @ [newline] @ js ''    Hello: Hola''
     @ [newline] @ js ''    Goodbye: Adi'' @ [0x00F3] @ js ''s''"

definition index_initializeApp :: "constructor \<Rightarrow> jsstring \<Rightarrow> page \<Rightarrow> page" where
  "index_initializeApp newGoogleGenAI apiKey s =
     (case newGoogleGenAI apiKey of
        Inr c \<Rightarrow>
          s\<lparr>ai := Some c, apiKeySection_hidden := True, appContent_hidden := False,
            errorMessage := [], exampleMessage_hidden := True, flashcardsContainer := []\<rparr>
      | Inl e \<Rightarrow>
          s\<lparr>errorMessage := msg_InitError,
            sessionStorage := (sessionStorage s)(API_KEY_SESSION_STORAGE_KEY := None)\<rparr>)"

definition index_saveApiKeyButton_click :: "constructor \<Rightarrow> page \<Rightarrow> page" where
  "index_saveApiKeyButton_click newGoogleGenAI s =
     (let apiKey = trim (apiKeyInput s) in
      if apiKey \<noteq> [] then
        (index_initializeApp newGoogleGenAI apiKey
           (s\<lparr>sessionStorage := (sessionStorage s)(API_KEY_SESSION_STORAGE_KEY \<mapsto> apiKey)\<rparr>))
          \<lparr>apiKeyInput := []\<rparr>
      else s\<lparr>errorMessage := msg_EmptySecret\<rparr>)"

definition index_catch :: "js_error \<Rightarrow> page \<Rightarrow> page" where
  "index_catch error s =
     (let detailedError = message_or_unknown error;
          detailedError =
            (if includes_str detailedError invalid_key_marker
             then index_msg_CredentialInvalid else detailedError)
      in s\<lparr>errorMessage := error_prefix @ detailedError, flashcardsContainer := []\<rparr>)"

definition index_generateButton_click :: "service \<Rightarrow> page \<Rightarrow> page" where
  "index_generateButton_click generateContent s =
     (case ai s of
        None \<Rightarrow> s\<lparr>errorMessage := msg_NotInitialized\<rparr>
      | Some client \<Rightarrow>
          let topic = trim (topicInput s) in
          if topic = [] then s\<lparr>errorMessage := msg_EmptyTopic, flashcardsContainer := []\<rparr>
          else
            let s1 = s\<lparr>errorMessage := js ''Generating flashcards...'',
                       flashcardsContainer := [], generateButton_disabled := True,
                       exampleMessage_hidden := True\<rparr>;
                prompt = index_prompt topic;
                s2 = s1\<lparr>requests := requests s1 @ [(model_id, prompt)]\<rparr>;
                s3 =
                  (case generateContent client (model_id, prompt) of
                     Rejected error \<Rightarrow> index_catch error s2
                   | Resolved text \<Rightarrow>
                       let responseText = nullish_text text in
                       if responseText \<noteq> [] then
                         (case parseResponse responseText of
                            Inl error \<Rightarrow> index_catch error s2
                          | Inr flashcards \<Rightarrow>
                              if length flashcards > 0
                              then renderFlashcards flashcards (s2\<lparr>errorMessage := []\<rparr>)
                              else s2\<lparr>errorMessage := index_msg_NoValidFlashcards\<rparr>)
                       else s2\<lparr>errorMessage := index_msg_EmptyResponse\<rparr>)
            in s3\<lparr>generateButton_disabled := False\<rparr>)"

subsection \<open>The handlers of the second source file\<close>

definition part0_prompt :: "jsstring \<Rightarrow> jsstring" where
  "part0_prompt topic =
     js ''Generate a list of flashcards for the topic of \"'' @ topic
     @ js ''\". Each flashcard should have a term and a concise definition. Format the output as a list of \"Term: Definition\" pairs, with each pair on a new line. Ensure terms and definitions are distinct and clearly separated by a single colon. Do not include any introductory text. For example:''
     @ [newline] @ js ''Hello: Hola''
     @ [newline] @ js ''Goodbye: Adi'' @ [0x00C3, 0x00B3] @ js ''s''"

definition part0_initializeAi :: "constructor \<Rightarrow> jsstring \<Rightarrow> page \<Rightarrow> bool \<times> page" where
  "part0_initializeAi newGoogleGenAI apiKey s =
     (case newGoogleGenAI apiKey of
        Inr c \<Rightarrow> (True, s\<lparr>ai := Some c\<rparr>)
      | Inl e \<Rightarrow> (False, s\<lparr>errorMessage := msg_InitError\<rparr>))"

definition part0_setLoading :: "bool \<Rightarrow> page \<Rightarrow> page" where
  "part0_setLoading isLoading s =
     s\<lparr>generateButton_disabled := isLoading, buttonText_hidden := isLoading,
       spinner_hidden := (\<not> isLoading)\<rparr>"

definition part0_catch :: "js_error \<Rightarrow> page \<Rightarrow> page" where
  "part0_catch error s =
     (let detailedError = message_or_unknown error in
      if includes_str detailedError invalid_key_marker then
        s\<lparr>sessionStorage := (sessionStorage s)(API_KEY_SESSION_STORAGE_KEY := None),
          ai := None,
          errorMessage := error_prefix @ part0_msg_CredentialInvalid\<rparr>
      else s\<lparr>errorMessage := error_prefix @ detailedError\<rparr>)"

definition part0_generateAndRenderCards :: "service \<Rightarrow> page \<Rightarrow> page" where
  "part0_generateAndRenderCards generateContent s =
     (let topic = trim (topicInput s) in
      if topic = [] then s\<lparr>errorMessage := msg_EmptyTopic\<rparr>
      else
        (case ai s of
           None \<Rightarrow> s\<lparr>errorMessage := msg_NotInitialized, apiKeyModal_open := True\<rparr>
         | Some client \<Rightarrow>
             let s1 = (part0_setLoading True s)
                        \<lparr>errorMessage := [], exampleMessage_hidden := True,
                         flashcardsContainer := []\<rparr>;
                 prompt = part0_prompt topic;
                 s2 = s1\<lparr>requests := requests s1 @ [(model_id, prompt)]\<rparr>;
                 s3 =
                   (case generateContent client (model_id, prompt) of
                      Rejected error \<Rightarrow> part0_catch error s2
                    | Resolved text \<Rightarrow>
                        let responseText = nullish_text text in
                        if responseText = []
                        then part0_catch (Error part0_msg_EmptyResponse) s2
                        else
                          (case parseResponse responseText of
                             Inl error \<Rightarrow> part0_catch error s2
                           | Inr flashcards \<Rightarrow>
                               if length flashcards > 0
                               then renderFlashcards flashcards s2
                               else s2\<lparr>errorMessage := part0_msg_NoValidFlashcards\<rparr>))
             in part0_setLoading False s3))"

definition part0_saveApiKeyButton_click :: "constructor \<Rightarrow> service \<Rightarrow> page \<Rightarrow> page" where
  "part0_saveApiKeyButton_click newGoogleGenAI generateContent s =
     (let apiKey = trim (apiKeyInput s) in
      if apiKey \<noteq> [] then
        (case part0_initializeAi newGoogleGenAI apiKey s of
           (True, s1) \<Rightarrow>
             part0_generateAndRenderCards generateContent
               (s1\<lparr>sessionStorage := (sessionStorage s1)(API_KEY_SESSION_STORAGE_KEY \<mapsto> apiKey),
                   apiKeyInput := [], apiKeyModal_open := False\<rparr>)
         | (False, s1) \<Rightarrow> s1)
      else s\<lparr>alerts := alerts s @ [msg_EmptySecret]\<rparr>)"

subsection \<open>The credential gate\<close>

text \<open>
  The gate is Active when a client is held, and Absent when no client is held and the
  session store has no key.
\<close>

definition Active :: "page \<Rightarrow> bool" where
  "Active s \<longleftrightarrow> ai s \<noteq> None"

definition Absent :: "page \<Rightarrow> bool" where
  "Absent s \<longleftrightarrow> ai s = None \<and> sessionStorage s API_KEY_SESSION_STORAGE_KEY = None"

subsection \<open>Concrete pages and stubbed collaborators\<close>

text \<open>
  A page before any handler has run; a page holding a client, its key in the session
  store and the topic \<open>Colors\<close>; a service that answers every request with one text, or
  rejects every request with one thrown value; a constructor that always raises; the error
  of a service that refuses the key.
\<close>

definition fresh_page :: page where
  "fresh_page =
     \<lparr>ai = None, sessionStorage = Map.empty, topicInput = [], apiKeyInput = [],
      errorMessage = [], flashcardsContainer = [], exampleMessage_hidden = False,
      apiKeySection_hidden = False, appContent_hidden = False, apiKeyModal_open = False,
      generateButton_disabled = False, buttonText_hidden = False, spinner_hidden = True,
      alerts = [], requests = []\<rparr>"

definition ready_page :: page where
  "ready_page =
     fresh_page\<lparr>ai := Some (GoogleGenAI (js ''key'')),
       sessionStorage := [API_KEY_SESSION_STORAGE_KEY \<mapsto> js ''key''],
       topicInput := js ''Colors''\<rparr>"

definition answering :: "jsstring \<Rightarrow> service" where
  "answering text = (\<lambda>client request. Resolved (Some text))"

definition rejecting :: "js_error \<Rightarrow> service" where
  "rejecting error = (\<lambda>client request. Rejected error)"

definition raising :: constructor where
  "raising = (\<lambda>apiKey. Inl (Error (js ''An API Key must be set when running in a browser'')))"

definition invalid_key_error :: js_error where
  "invalid_key_error = Error (js ''API key not valid. Please pass a valid API key.'')"

definition colors_response :: jsstring where
  "colors_response = js ''Red: A warm color'' @ [newline] @ js ''Blue: A cool color''"

definition colors_cards :: "flashcard list" where
  "colors_cards =
     [\<lparr>card_term = js ''Red'', card_definition = js ''A warm color''\<rparr>,
      \<lparr>card_term = js ''Blue'', card_definition = js ''A cool color''\<rparr>]"

section \<open>Properties of the string operations\<close>

lemma split_str_not_Nil: "split_str sep s \<noteq> []"
  by (induction s) (auto split: list.splits)

lemma split_str_no_sep: "sep \<notin> set s \<Longrightarrow> split_str sep s = [s]"
  by (induction s) auto

lemma split_str_first:
  "sep \<notin> set t \<Longrightarrow> split_str sep (t @ sep # r) = t # split_str sep r"
  by (induction t) auto

lemma join_split_str: "join_str sep (split_str sep s) = s"
proof (induction s)
  case Nil
  show ?case by simp
next
  case (Cons c cs)
  show ?case
  proof (cases "c = sep")
    case True
    with Cons split_str_not_Nil [of sep cs] show ?thesis
      by (cases "split_str sep cs") auto
  next
    case False
    with Cons split_str_not_Nil [of sep cs] show ?thesis
      by (cases "split_str sep cs"; cases "tl (split_str sep cs)") auto
  qed
qed

lemma hd_split_str: "hd (split_str sep s) = takeWhile (\<lambda>c. c \<noteq> sep) s"
  by (induction s) (auto simp: split_str_not_Nil split: list.splits)

lemma length_split_str: "length (split_str sep s) = Suc (length (filter (\<lambda>c. c = sep) s))"
  by (induction s) (auto split: list.splits)

lemma split_str_two_iff: "2 \<le> length (split_str sep s) \<longleftrightarrow> sep \<in> set s"
proof -
  have "filter (\<lambda>c. c = sep) s \<noteq> [] \<longleftrightarrow> sep \<in> set s"
    by (induction s) auto
  then show ?thesis
    by (cases "filter (\<lambda>c. c = sep) s") (auto simp: length_split_str)
qed

lemma split_str_segments: "p \<in> set (split_str sep s) \<Longrightarrow> sep \<notin> set p"
proof (induction s arbitrary: p)
  case Nil
  then show ?case by simp
next
  case (Cons c cs)
  then show ?case
    by (cases "split_str sep cs") (auto split: if_splits)
qed

lemma split_join_str:
  "ls \<noteq> [] \<Longrightarrow> (\<And>l. l \<in> set ls \<Longrightarrow> sep \<notin> set l) \<Longrightarrow> split_str sep (join_str sep ls) = ls"
proof (induction sep ls rule: join_str.induct)
  case (1 sep)
  then show ?case by simp
next
  case (2 sep p)
  then show ?case by (simp add: split_str_no_sep)
next
  case (3 sep p q ps)
  then show ?case by (simp add: split_str_first)
qed

lemma rest_split_str:
  "sep \<in> set s \<Longrightarrow>
     join_str sep (tl (split_str sep s)) = tl (dropWhile (\<lambda>c. c \<noteq> sep) s)"
proof -
  assume "sep \<in> set s"
  then obtain t r where s: "s = t @ sep # r" and t: "sep \<notin> set t"
    by (auto dest: split_list_first)
  have "dropWhile (\<lambda>c. c \<noteq> sep) (t @ sep # r) = dropWhile (\<lambda>c. c \<noteq> sep) (sep # r)"
    using t by (intro dropWhile_append2) auto
  then have "dropWhile (\<lambda>c. c \<noteq> sep) s = sep # r"
    by (simp add: s)
  then show ?thesis
    using t by (simp add: s split_str_first join_split_str)
qed

lemma set_trim: "set (trim s) \<subseteq> set s"
proof -
  have "set (trim s) \<subseteq> set (dropWhile isWhiteSpace s)"
    unfolding trim_def using set_dropWhileD [of _ isWhiteSpace "rev (dropWhile isWhiteSpace s)"]
    by auto
  also have "\<dots> \<subseteq> set s"
    using set_dropWhileD [of _ isWhiteSpace s] by auto
  finally show ?thesis .
qed

lemma trim_Cons:
  "\<not> isWhiteSpace c \<Longrightarrow> trim (c # cs) = c # rev (dropWhile isWhiteSpace (rev cs))"
  by (simp add: trim_def dropWhile_append3)

lemma trim_dropWhile: "trim (dropWhile isWhiteSpace s) = trim s"
  by (simp add: trim_def)

lemma trim_space_Cons: "isWhiteSpace c \<Longrightarrow> trim (c # s) = trim s"
  by (simp add: trim_def)

lemma hd_trim: "trim s \<noteq> [] \<Longrightarrow> \<not> isWhiteSpace (hd (trim s))"
proof (cases "dropWhile isWhiteSpace s")
  case Nil
  have "trim s = []"
    unfolding trim_def Nil by simp
  moreover assume "trim s \<noteq> []"
  ultimately show ?thesis by simp
next
  case (Cons c cs)
  then have c: "\<not> isWhiteSpace c"
    using hd_dropWhile [of isWhiteSpace s] by simp
  have "trim s = trim (c # cs)"
    using Cons trim_dropWhile [of s] by simp
  with c show ?thesis by (simp add: trim_Cons)
qed

lemma last_trim: "trim s \<noteq> [] \<Longrightarrow> \<not> isWhiteSpace (last (trim s))"
proof -
  assume ne: "trim s \<noteq> []"
  let ?u = "dropWhile isWhiteSpace (rev (dropWhile isWhiteSpace s))"
  from ne have u: "?u \<noteq> []" by (simp add: trim_def)
  have "last (trim s) = hd ?u"
    using u by (simp add: trim_def last_rev)
  with hd_dropWhile [OF u] show ?thesis by simp
qed

lemma trim_id:
  assumes "s \<noteq> []" and "\<not> isWhiteSpace (hd s)" and "\<not> isWhiteSpace (last s)"
  shows "trim s = s"
proof -
  from assms(1) obtain c cs where s: "s = c # cs" by (cases s) auto
  show ?thesis
  proof (cases "cs = []")
    case True
    with assms(2) show ?thesis by (simp add: s trim_Cons)
  next
    case False
    then have "rev cs \<noteq> []" by simp
    then obtain x xs where r: "rev cs = x # xs" by (cases "rev cs") auto
    have "last s = hd (rev cs)"
      using False by (simp add: s hd_rev)
    with assms(3) have "\<not> isWhiteSpace x" by (simp add: r)
    then have "dropWhile isWhiteSpace (rev cs) = rev cs" by (simp add: r)
    with assms(2) show ?thesis by (simp add: s trim_Cons)
  qed
qed

section \<open>The parser refines the specification\<close>

lemma trim_at_0: "trim_at (split_str sep s) 0 = Inr (trim (hd (split_str sep s)))"
  using split_str_not_Nil [of sep s]
  by (cases "split_str sep s") (auto simp: trim_at_def)

lemma parseLine_spec: "parseLine line = Inr (spec_card line)"
  by (simp add: parseLine_def spec_card_def Let_def trim_at_0 drop_Suc)

lemma map_lines_total: "(\<And>x. f x = Inr (g x)) \<Longrightarrow> map_lines f xs = Inr (map g xs)"
  by (induction xs) auto

lemma parseResponse_spec:
  "parseResponse text =
     Inr (map the (filter (\<lambda>card. card \<noteq> None) (map spec_card (split_str newline text))))"
  by (simp add: parseResponse_def map_lines_total [of parseLine spec_card] parseLine_spec)

lemmas eval_simps = js_def colon_def newline_def isWhiteSpace_def trim_def trim_at_def
  parseLine_def parseResponse_def

lemma spec_card_first:
  assumes "colon \<notin> set t"
  shows "spec_card (t @ colon # d) =
     (if trim t \<noteq> [] \<and> trim d \<noteq> []
      then Some \<lparr>card_term = trim t, card_definition = trim d\<rparr> else None)"
proof -
  have "split_str colon (t @ colon # d) = t # split_str colon d"
    using assms by (rule split_str_first)
  moreover have "2 \<le> length (t # split_str colon d)"
    using split_str_not_Nil [of colon d] by (cases "split_str colon d") auto
  ultimately show ?thesis
    by (simp add: spec_card_def join_split_str)
qed

lemma spec_card_no_colon: "colon \<notin> set line \<Longrightarrow> spec_card line = None"
  by (simp add: spec_card_def split_str_no_sep)

lemma spec_card_Some:
  assumes "spec_card line = Some fc"
  shows "card_term fc = trim (hd (split_str colon line))"
    and "card_definition fc = trim (join_str colon (tl (split_str colon line)))"
    and "card_term fc \<noteq> []" and "card_definition fc \<noteq> []"
  using assms by (auto simp: spec_card_def Let_def split: if_splits)

lemma spec_card_pair:
  assumes "well_formed_pair p"
  shows "spec_card (pair_line p) = Some (pair_card p)"
proof -
  obtain t d where p: "p = (t, d)" by (cases p)
  from assms have t: "t \<noteq> []" "\<not> isWhiteSpace (hd t)" "\<not> isWhiteSpace (last t)" "colon \<notin> set t"
    and d: "d \<noteq> []" "\<not> isWhiteSpace (hd d)" "\<not> isWhiteSpace (last d)"
    by (simp_all add: p well_formed_pair_def plain_text_def)
  have sp: "isWhiteSpace 0x20" by (simp add: isWhiteSpace_def)
  have line: "pair_line (t, d) = t @ colon # 0x20 # d"
    by (simp add: pair_line_def js_def colon_def)
  have "trim t = t" using t(1-3) by (rule trim_id)
  moreover have "trim (0x20 # d) = d"
    using sp d by (simp add: trim_space_Cons trim_id)
  ultimately show ?thesis
    using t(1) d(1) by (simp add: line spec_card_first [OF t(4)] pair_card_def p)
qed

lemma newline_pair_line:
  assumes "well_formed_pair p"
  shows "newline \<notin> set (pair_line p)"
  using assms by (auto simp: well_formed_pair_def plain_text_def pair_line_def js_def newline_def)

lemma parse_pairs:
  assumes "\<And>p. p \<in> set pairs \<Longrightarrow> well_formed_pair p"
  shows "parseResponse (join_str newline (map pair_line pairs)) = Inr (map pair_card pairs)"
proof (cases "pairs = []")
  case True
  then show ?thesis by (simp add: parseResponse_spec spec_card_def)
next
  case False
  have "split_str newline (join_str newline (map pair_line pairs)) = map pair_line pairs"
    using False assms by (intro split_join_str) (auto simp: newline_pair_line)
  moreover have "map spec_card (map pair_line pairs) = map (\<lambda>p. Some (pair_card p)) pairs"
    using assms by (simp add: spec_card_pair)
  ultimately show ?thesis
    by (simp add: parseResponse_spec filter_map o_def)
qed

lemma filter_the_concat:
  "map the (filter (\<lambda>r. r \<noteq> None) (map f xs)) =
     concat (map (\<lambda>x. case f x of None \<Rightarrow> [] | Some y \<Rightarrow> [y]) xs)"
  by (induction xs) (auto split: option.splits)

lemma spec_card_iff:
  "(\<exists>fc. spec_card line = Some fc) \<longleftrightarrow>
     (2 \<le> length (split_str colon line) \<and> trim (hd (split_str colon line)) \<noteq> []
      \<and> trim (join_str colon (drop 1 (split_str colon line))) \<noteq> [])"
  by (simp add: spec_card_def Let_def drop_Suc)

lemma line_decomposition:
  assumes "colon \<in> set line"
  shows "line = hd (split_str colon line) @ colon # join_str colon (drop 1 (split_str colon line))"
proof -
  from assms obtain t r where l: "line = t @ colon # r" and t: "colon \<notin> set t"
    by (auto dest: split_list_first)
  show ?thesis
    by (simp add: l split_str_first [OF t] join_split_str)
qed

section \<open>Properties of the handlers\<close>

lemma marker_not_Nil: "invalid_key_marker \<noteq> []"
  by (simp add: invalid_key_marker_def js_def)

lemma includes_not_Nil: "includes_str m invalid_key_marker \<Longrightarrow> m \<noteq> []"
  using marker_not_Nil by (cases m) auto

lemma message_with_marker:
  "message error = Some m \<Longrightarrow> includes_str m invalid_key_marker \<Longrightarrow>
     includes_str (message_or_unknown error) invalid_key_marker"
  using includes_not_Nil [of m] by (simp add: message_or_unknown_def)

lemma empty_response_error:
  "message_or_unknown (Error part0_msg_EmptyResponse) = part0_msg_EmptyResponse"
  "\<not> includes_str part0_msg_EmptyResponse invalid_key_marker"
  by (simp_all add: message_or_unknown_def part0_msg_EmptyResponse_def invalid_key_marker_def js_def)

lemma messages_distinct:
  "msg_NotInitialized \<noteq> msg_EmptyTopic"
  "index_msg_EmptyResponse \<noteq> index_msg_NoValidFlashcards"
  "error_prefix @ part0_msg_EmptyResponse \<noteq> part0_msg_NoValidFlashcards"
  by (simp_all add: msg_NotInitialized_def msg_EmptyTopic_def index_msg_EmptyResponse_def
      index_msg_NoValidFlashcards_def part0_msg_EmptyResponse_def part0_msg_NoValidFlashcards_def
      error_prefix_def js_def)

lemma index_no_client:
  "ai s = None \<Longrightarrow> index_generateButton_click gc s = s\<lparr>errorMessage := msg_NotInitialized\<rparr>"
  by (simp add: index_generateButton_click_def)

lemma index_empty_topic:
  "ai s = Some c \<Longrightarrow> trim (topicInput s) = [] \<Longrightarrow>
     index_generateButton_click gc s = s\<lparr>errorMessage := msg_EmptyTopic, flashcardsContainer := []\<rparr>"
  by (simp add: index_generateButton_click_def)

lemma part0_empty_topic:
  "trim (topicInput s) = [] \<Longrightarrow>
     part0_generateAndRenderCards gc s = s\<lparr>errorMessage := msg_EmptyTopic\<rparr>"
  by (simp add: part0_generateAndRenderCards_def)

lemma part0_no_client:
  "trim (topicInput s) \<noteq> [] \<Longrightarrow> ai s = None \<Longrightarrow>
     part0_generateAndRenderCards gc s =
       s\<lparr>errorMessage := msg_NotInitialized, apiKeyModal_open := True\<rparr>"
  by (simp add: part0_generateAndRenderCards_def)

lemma index_rendered:
  assumes "ai s = Some c" and "trim (topicInput s) \<noteq> []"
    and "gc c (model_id, index_prompt (trim (topicInput s))) = Resolved (Some text)"
    and "text \<noteq> []" and "parseResponse text = Inr cards"
  shows "errorMessage (index_generateButton_click gc s) =
           (if cards = [] then index_msg_NoValidFlashcards else [])"
    and "flashcardsContainer (index_generateButton_click gc s) = cards"
  using assms
  by (simp_all add: index_generateButton_click_def Let_def nullish_text_def renderFlashcards_def)

lemma part0_rendered:
  assumes "ai s = Some c" and "trim (topicInput s) \<noteq> []"
    and "gc c (model_id, part0_prompt (trim (topicInput s))) = Resolved (Some text)"
    and "text \<noteq> []" and "parseResponse text = Inr cards"
  shows "errorMessage (part0_generateAndRenderCards gc s) =
           (if cards = [] then part0_msg_NoValidFlashcards else [])"
    and "flashcardsContainer (part0_generateAndRenderCards gc s) = cards"
  using assms
  by (simp_all add: part0_generateAndRenderCards_def Let_def nullish_text_def
      renderFlashcards_def part0_setLoading_def)

lemma index_empty_response:
  assumes "ai s = Some c" and "trim (topicInput s) \<noteq> []"
    and "gc c (model_id, index_prompt (trim (topicInput s))) = Resolved r"
    and "nullish_text r = []"
  shows "errorMessage (index_generateButton_click gc s) = index_msg_EmptyResponse"
  using assms by (simp add: index_generateButton_click_def Let_def)

lemma part0_empty_response:
  assumes "ai s = Some c" and "trim (topicInput s) \<noteq> []"
    and "gc c (model_id, part0_prompt (trim (topicInput s))) = Resolved r"
    and "nullish_text r = []"
  shows "errorMessage (part0_generateAndRenderCards gc s) = error_prefix @ part0_msg_EmptyResponse"
  using assms
  by (simp add: part0_generateAndRenderCards_def Let_def part0_catch_def empty_response_error
      part0_setLoading_def)

lemma index_invalid_key:
  assumes "ai s = Some c" and "trim (topicInput s) \<noteq> []"
    and "gc c (model_id, index_prompt (trim (topicInput s))) = Rejected error"
    and "message error = Some m" and "includes_str m invalid_key_marker"
  shows "errorMessage (index_generateButton_click gc s) = error_prefix @ index_msg_CredentialInvalid"
    and "ai (index_generateButton_click gc s) = ai s"
    and "sessionStorage (index_generateButton_click gc s) = sessionStorage s"
  using assms message_with_marker [OF assms(4,5)]
  by (simp_all add: index_generateButton_click_def Let_def index_catch_def)

lemma part0_invalid_key:
  assumes "ai s = Some c" and "trim (topicInput s) \<noteq> []"
    and "gc c (model_id, part0_prompt (trim (topicInput s))) = Rejected error"
    and "message error = Some m" and "includes_str m invalid_key_marker"
  shows "errorMessage (part0_generateAndRenderCards gc s) = error_prefix @ part0_msg_CredentialInvalid"
    and "ai (part0_generateAndRenderCards gc s) = None"
    and "sessionStorage (part0_generateAndRenderCards gc s) API_KEY_SESSION_STORAGE_KEY = None"
  using assms message_with_marker [OF assms(4,5)]
  by (simp_all add: part0_generateAndRenderCards_def Let_def part0_catch_def part0_setLoading_def)

lemma requests_index_guard:
  "ai s = None \<or> trim (topicInput s) = [] \<Longrightarrow>
     requests (index_generateButton_click gc s) = requests s"
  by (auto simp: index_generateButton_click_def split: option.splits)

lemma requests_part0_guard:
  "ai s = None \<or> trim (topicInput s) = [] \<Longrightarrow>
     requests (part0_generateAndRenderCards gc s) = requests s"
  by (cases "trim (topicInput s) = []") (auto simp: part0_empty_topic part0_no_client)

lemma colors_facts:
  "trim (js ''Colors'') = js ''Colors''" "js ''Colors'' \<noteq> []"
  "colors_response \<noteq> []" "parseResponse colors_response = Inr colors_cards"
  by (simp_all add: eval_simps colors_response_def colors_cards_def)

lemma ready_page_facts:
  "ai ready_page = Some (GoogleGenAI (js ''key''))"
  "topicInput ready_page = js ''Colors''"
  "sessionStorage ready_page API_KEY_SESSION_STORAGE_KEY = Some (js ''key'')"
  "requests ready_page = []"
  by (simp_all add: ready_page_def fresh_page_def)

lemma index_save_empty:
  "trim (apiKeyInput s) = [] \<Longrightarrow>
     index_saveApiKeyButton_click ctor s = s\<lparr>errorMessage := msg_EmptySecret\<rparr>"
  by (simp add: index_saveApiKeyButton_click_def)

lemma part0_save_empty:
  "trim (apiKeyInput s) = [] \<Longrightarrow>
     part0_saveApiKeyButton_click ctor gc s = s\<lparr>alerts := alerts s @ [msg_EmptySecret]\<rparr>"
  by (simp add: part0_saveApiKeyButton_click_def)

lemma index_save_failed:
  assumes "trim (apiKeyInput s) \<noteq> []" and "ctor (trim (apiKeyInput s)) = Inl e"
  shows "errorMessage (index_saveApiKeyButton_click ctor s) = msg_InitError"
    and "ai (index_saveApiKeyButton_click ctor s) = ai s"
    and "sessionStorage (index_saveApiKeyButton_click ctor s) API_KEY_SESSION_STORAGE_KEY = None"
    and "requests (index_saveApiKeyButton_click ctor s) = requests s"
  using assms by (simp_all add: index_saveApiKeyButton_click_def index_initializeApp_def Let_def)

lemma part0_save_failed:
  assumes "trim (apiKeyInput s) \<noteq> []" and "ctor (trim (apiKeyInput s)) = Inl e"
  shows "part0_saveApiKeyButton_click ctor gc s = s\<lparr>errorMessage := msg_InitError\<rparr>"
  using assms by (simp add: part0_saveApiKeyButton_click_def part0_initializeAi_def Let_def)

section \<open>The claims about the parser\<close>

text \<open>
  C9: the response parser is total. For every text, parsing returns a list of flashcards
  (possibly empty) and raises nothing, on any line: the read of \<open>parts[0]\<close> is always
  in range. All functions involved are defined by structural recursion, so they terminate.
\<close>

theorem C9_parser_total:
  "(\<exists>r. parseLine line = Inr r) \<and> (\<exists>cards. parseResponse responseText = Inr cards)"
  by (simp add: parseLine_spec parseResponse_spec)

text \<open>Every card of the result comes from one line of the response.\<close>

lemma parsed_card:
  assumes "parseResponse responseText = Inr cards" and "fc \<in> set cards"
  shows "\<exists>line \<in> set (split_str newline responseText). spec_card line = Some fc"
proof -
  from assms have "fc \<in> the ` {r \<in> spec_card ` set (split_str newline responseText). r \<noteq> None}"
    by (auto simp: parseResponse_spec)
  then show ?thesis by force
qed

text \<open>
  C10: every flashcard the parser produces has a term without a colon, and a term and a
  definition that are non-empty and have no white space at either end. Neither holds a
  line break.
\<close>

theorem C10_card_invariant:
  assumes "parseResponse responseText = Inr cards" and "fc \<in> set cards"
  shows "colon \<notin> set (card_term fc)
    \<and> card_term fc \<noteq> [] \<and> card_definition fc \<noteq> []
    \<and> \<not> isWhiteSpace (hd (card_term fc)) \<and> \<not> isWhiteSpace (last (card_term fc))
    \<and> \<not> isWhiteSpace (hd (card_definition fc)) \<and> \<not> isWhiteSpace (last (card_definition fc))
    \<and> newline \<notin> set (card_term fc) \<and> newline \<notin> set (card_definition fc)"
proof -
  from parsed_card [OF assms] obtain line
    where line: "line \<in> set (split_str newline responseText)" and fc: "spec_card line = Some fc"
    by blast
  let ?parts = "split_str colon line"
  note sc = spec_card_Some [OF fc]
  have nl: "newline \<notin> set line"
    using line by (rule split_str_segments)
  have "hd ?parts \<in> set ?parts"
    using split_str_not_Nil [of colon line] by simp
  then have "colon \<notin> set (hd ?parts)"
    by (rule split_str_segments)
  with set_trim [of "hd ?parts"] have c: "colon \<notin> set (card_term fc)"
    unfolding sc(1) by blast
  have "set (hd ?parts) \<subseteq> set line"
    unfolding hd_split_str by (blast dest: set_takeWhileD)
  with nl set_trim [of "hd ?parts"] have n1: "newline \<notin> set (card_term fc)"
    unfolding sc(1) by blast
  have "colon \<in> set line"
    using fc spec_card_no_colon [of line] by auto
  then have "join_str colon (tl ?parts) = tl (dropWhile (\<lambda>c. c \<noteq> colon) line)"
    by (rule rest_split_str)
  moreover have "set (tl (dropWhile (\<lambda>c. c \<noteq> colon) line)) \<subseteq> set line"
  proof
    fix x
    assume "x \<in> set (tl (dropWhile (\<lambda>c. c \<noteq> colon) line))"
    then have "x \<in> set (dropWhile (\<lambda>c. c \<noteq> colon) line)"
      by (cases "dropWhile (\<lambda>c. c \<noteq> colon) line") simp_all
    then show "x \<in> set line"
      by (rule set_dropWhileD)
  qed
  ultimately have "set (join_str colon (tl ?parts)) \<subseteq> set line"
    by simp
  with nl set_trim [of "join_str colon (tl ?parts)"] have n2: "newline \<notin> set (card_definition fc)"
    unfolding sc(2) by blast
  have t: "\<not> isWhiteSpace (hd (card_term fc)) \<and> \<not> isWhiteSpace (last (card_term fc))"
    using sc(3) hd_trim [of "hd ?parts"] last_trim [of "hd ?parts"] by (simp add: sc(1))
  have d: "\<not> isWhiteSpace (hd (card_definition fc)) \<and> \<not> isWhiteSpace (last (card_definition fc))"
    using sc(4) hd_trim [of "join_str colon (tl ?parts)"] last_trim [of "join_str colon (tl ?parts)"]
    by (simp add: sc(2))
  from c n1 n2 t d sc(3,4) show ?thesis by simp
qed

text \<open>The invariant on the card parsed from a line with white space around both parts.\<close>

theorem C10_card_invariant_witness:
  "parseResponse (js ''  Noon :  12:00  '') =
     Inr [\<lparr>card_term = js ''Noon'', card_definition = js ''12:00''\<rparr>]
   \<and> colon \<notin> set (js ''Noon'') \<and> js ''Noon'' \<noteq> [] \<and> js ''12:00'' \<noteq> []
   \<and> \<not> isWhiteSpace (hd (js ''Noon'')) \<and> \<not> isWhiteSpace (last (js ''Noon''))
   \<and> \<not> isWhiteSpace (hd (js ''12:00'')) \<and> \<not> isWhiteSpace (last (js ''12:00''))
   \<and> newline \<notin> set (js ''Noon'') \<and> newline \<notin> set (js ''12:00'')"
proof -
  have p: "parseResponse (js ''  Noon :  12:00  '') =
     Inr [\<lparr>card_term = js ''Noon'', card_definition = js ''12:00''\<rparr>]"
    by (simp add: eval_simps)
  from C10_card_invariant [OF p, of "\<lparr>card_term = js ''Noon'', card_definition = js ''12:00''\<rparr>"] p
  show ?thesis by simp
qed

text \<open>
  C3: a line yields a flashcard iff it splits on the colon into at least two segments (that
  is, iff it holds a colon), its first segment trimmed is non-empty, and the remaining
  segments rejoined with the colon and trimmed are non-empty. Every other line yields
  \<open>null\<close>, never an error, and so adds nothing to the result: the result of a response
  is the cards of its lines, one or none per line, in order. A line without a colon, a line
  with an empty term, a line with an empty definition and a blank line yield nothing.
\<close>

theorem C3_line_yields_card_iff:
  "((\<exists>fc. parseLine line = Inr (Some fc)) \<longleftrightarrow>
      (2 \<le> length (split_str colon line) \<and> trim (hd (split_str colon line)) \<noteq> []
       \<and> trim (join_str colon (drop 1 (split_str colon line))) \<noteq> []))
   \<and> (parseLine line = Inr None \<longleftrightarrow>
      \<not> (2 \<le> length (split_str colon line) \<and> trim (hd (split_str colon line)) \<noteq> []
       \<and> trim (join_str colon (drop 1 (split_str colon line))) \<noteq> []))
   \<and> (2 \<le> length (split_str colon line) \<longleftrightarrow> colon \<in> set line)
   \<and> parseLine line = Inr (spec_card line)
   \<and> parseResponse responseText =
       Inr (concat (map (\<lambda>l. case spec_card l of None \<Rightarrow> [] | Some fc \<Rightarrow> [fc])
                        (split_str newline responseText)))
   \<and> parseLine (js ''no colon here'') = Inr None
   \<and> parseLine (js '': something'') = Inr None
   \<and> parseLine (js ''Term:   '') = Inr None
   \<and> parseLine [] = Inr None"
proof -
  have a: "(\<exists>fc. parseLine line = Inr (Some fc)) \<longleftrightarrow>
      (2 \<le> length (split_str colon line) \<and> trim (hd (split_str colon line)) \<noteq> []
       \<and> trim (join_str colon (drop 1 (split_str colon line))) \<noteq> [])"
    using spec_card_iff [of line] by (simp add: parseLine_spec)
  have b: "parseLine line = Inr None \<longleftrightarrow>
      \<not> (2 \<le> length (split_str colon line) \<and> trim (hd (split_str colon line)) \<noteq> []
       \<and> trim (join_str colon (drop 1 (split_str colon line))) \<noteq> [])"
    using spec_card_iff [of line] by (cases "spec_card line") (simp_all add: parseLine_spec)
  have c: "parseResponse responseText =
       Inr (concat (map (\<lambda>l. case spec_card l of None \<Rightarrow> [] | Some fc \<Rightarrow> [fc])
                        (split_str newline responseText)))"
    by (simp only: parseResponse_spec filter_the_concat)
  have d: "parseLine (js ''no colon here'') = Inr None"
    "parseLine (js '': something'') = Inr None"
    "parseLine (js ''Term:   '') = Inr None"
    "parseLine [] = Inr None"
    by (simp_all add: eval_simps)
  from a b c d show ?thesis
    by (simp only: split_str_two_iff parseLine_spec simp_thms)
qed

text \<open>
  C2: for every line whose first colon-segment trims to non-empty, the term is that segment
  trimmed and the definition is the remaining segments rejoined with the colon and trimmed
  (a card results when the line holds a colon and that definition is non-empty). The
  rejoined text is exactly what follows the first colon of the line, so colons inside the
  definition are kept. The line \<open>Ratio: 3:2\<close> yields the term \<open>Ratio\<close> and the
  definition \<open>3:2\<close>.
\<close>

theorem C2_term_and_definition:
  assumes "trim (hd (split_str colon line)) \<noteq> []"
  shows "parseLine line =
      Inr (if colon \<in> set line \<and> trim (join_str colon (drop 1 (split_str colon line))) \<noteq> []
           then Some \<lparr>card_term = trim (hd (split_str colon line)),
                      card_definition = trim (join_str colon (drop 1 (split_str colon line)))\<rparr>
           else None)
    \<and> (colon \<in> set line \<longrightarrow>
         line = hd (split_str colon line) @ colon # join_str colon (drop 1 (split_str colon line)))
    \<and> parseLine (js ''Ratio: 3:2'') =
         Inr (Some \<lparr>card_term = js ''Ratio'', card_definition = js ''3:2''\<rparr>)"
proof -
  have "parseLine line =
      Inr (if colon \<in> set line \<and> trim (join_str colon (drop 1 (split_str colon line))) \<noteq> []
           then Some \<lparr>card_term = trim (hd (split_str colon line)),
                      card_definition = trim (join_str colon (drop 1 (split_str colon line)))\<rparr>
           else None)"
    using assms split_str_two_iff [of colon line]
    by (simp add: parseLine_spec spec_card_def Let_def drop_Suc)
  moreover have "parseLine (js ''Ratio: 3:2'') =
         Inr (Some \<lparr>card_term = js ''Ratio'', card_definition = js ''3:2''\<rparr>)"
    by (simp add: eval_simps)
  ultimately show ?thesis
    using line_decomposition [of line] by blast
qed

text \<open>A line whose definition holds two colons, with white space around both parts.\<close>

theorem C2_term_and_definition_witness:
  "trim (hd (split_str colon (js ''Start time : 10:30:00 ''))) \<noteq> []
   \<and> parseLine (js ''Start time : 10:30:00 '') =
       Inr (Some \<lparr>card_term = js ''Start time'', card_definition = js ''10:30:00''\<rparr>)
   \<and> js ''Start time : 10:30:00 '' = js ''Start time '' @ colon # js '' 10:30:00 ''"
proof -
  have h: "trim (hd (split_str colon (js ''Start time : 10:30:00 ''))) \<noteq> []"
    by (simp add: eval_simps)
  from C2_term_and_definition [OF h] h show ?thesis
    by (simp add: eval_simps)
qed

text \<open>
  C1: a response made of lines of the shape \<open>Term: Definition\<close> (each term plain and
  without a colon, each definition plain) parses to exactly the cards of its lines, in line
  order. The response \<open>A: B\<close>, \<open>C: D\<close> gives the cards (A, B) and (C, D). With the
  topic \<open>Colors\<close> and a service that returns \<open>Red: A warm color\<close>,
  \<open>Blue: A cool color\<close>, both generation handlers display exactly these two cards, in
  that order.
\<close>

theorem C1_well_formed_response:
  "((\<forall>p \<in> set pairs. well_formed_pair p) \<longrightarrow>
       parseResponse (join_str newline (map pair_line pairs)) = Inr (map pair_card pairs))
   \<and> parseResponse (js ''A: B'' @ [newline] @ js ''C: D'') =
       Inr [\<lparr>card_term = js ''A'', card_definition = js ''B''\<rparr>,
            \<lparr>card_term = js ''C'', card_definition = js ''D''\<rparr>]
   \<and> parseResponse colors_response = Inr colors_cards
   \<and> (ai s = Some client \<and> topicInput s = js ''Colors''
        \<and> generateContent client (model_id, index_prompt (js ''Colors'')) =
            Resolved (Some colors_response) \<longrightarrow>
       flashcardsContainer (index_generateButton_click generateContent s) = colors_cards)
   \<and> (ai s = Some client \<and> topicInput s = js ''Colors''
        \<and> generateContent client (model_id, part0_prompt (js ''Colors'')) =
            Resolved (Some colors_response) \<longrightarrow>
       flashcardsContainer (part0_generateAndRenderCards generateContent s) = colors_cards)"
proof -
  have a: "(\<forall>p \<in> set pairs. well_formed_pair p) \<longrightarrow>
       parseResponse (join_str newline (map pair_line pairs)) = Inr (map pair_card pairs)"
    using parse_pairs [of pairs] by blast
  have b: "parseResponse (js ''A: B'' @ [newline] @ js ''C: D'') =
       Inr [\<lparr>card_term = js ''A'', card_definition = js ''B''\<rparr>,
            \<lparr>card_term = js ''C'', card_definition = js ''D''\<rparr>]"
    by (simp add: eval_simps)
  have c: "ai s = Some client \<and> topicInput s = js ''Colors''
        \<and> generateContent client (model_id, index_prompt (js ''Colors'')) =
            Resolved (Some colors_response) \<longrightarrow>
       flashcardsContainer (index_generateButton_click generateContent s) = colors_cards"
    using index_rendered(2) [of s client generateContent colors_response colors_cards]
    by (simp add: colors_facts)
  have d: "ai s = Some client \<and> topicInput s = js ''Colors''
        \<and> generateContent client (model_id, part0_prompt (js ''Colors'')) =
            Resolved (Some colors_response) \<longrightarrow>
       flashcardsContainer (part0_generateAndRenderCards generateContent s) = colors_cards"
    using part0_rendered(2) [of s client generateContent colors_response colors_cards]
    by (simp add: colors_facts)
  from a b c d colors_facts(4) show ?thesis by blast
qed

text \<open>
  Two well-formed lines, the second with a colon inside its definition, and the
  end-to-end run on a page that holds a client.
\<close>

theorem C1_well_formed_response_witness:
  "well_formed_pair (js ''Hello'', js ''Hola'')
   \<and> well_formed_pair (js ''Noon'', js ''12:00 sharp'')
   \<and> parseResponse (js ''Hello: Hola'' @ [newline] @ js ''Noon: 12:00 sharp'') =
       Inr [\<lparr>card_term = js ''Hello'', card_definition = js ''Hola''\<rparr>,
            \<lparr>card_term = js ''Noon'', card_definition = js ''12:00 sharp''\<rparr>]
   \<and> ai ready_page = Some (GoogleGenAI (js ''key'')) \<and> topicInput ready_page = js ''Colors''
   \<and> flashcardsContainer (index_generateButton_click (answering colors_response) ready_page)
       = colors_cards
   \<and> flashcardsContainer (part0_generateAndRenderCards (answering colors_response) ready_page)
       = colors_cards"
proof -
  let ?pairs = "[(js ''Hello'', js ''Hola''), (js ''Noon'', js ''12:00 sharp'')]"
  have h: "\<forall>p \<in> set ?pairs. well_formed_pair p"
    by (simp add: well_formed_pair_def plain_text_def eval_simps)
  have l: "join_str newline (map pair_line ?pairs) =
      js ''Hello: Hola'' @ [newline] @ js ''Noon: 12:00 sharp''"
    by (simp add: pair_line_def js_def)
  have r: "answering colors_response (GoogleGenAI (js ''key'')) request = Resolved (Some colors_response)"
    for request by (simp add: answering_def)
  from C1_well_formed_response
    [of ?pairs ready_page "GoogleGenAI (js ''key'')" "answering colors_response"] h
  show ?thesis
    unfolding l by (simp add: ready_page_facts r pair_card_def)
qed

section \<open>The claims about generation and the credential gate\<close>

text \<open>
  C5: for every topic whose trimmed value is empty, generation fails with the message of an
  empty topic and no request is sent to the completion service. Generation requires a held
  client: the click handler of \<open>index.tsx\<close> reports the empty topic on a page that
  holds one (a page without a client is the case of C6); \<open>generateAndRenderCards\<close>
  of the second file reports it whatever the gate. Neither sends a request, whatever the
  gate.
\<close>

theorem C5_blank_topic:
  assumes "trim (topicInput s) = []"
  shows "requests (index_generateButton_click generateContent s) = requests s
    \<and> requests (part0_generateAndRenderCards generateContent s) = requests s
    \<and> errorMessage (part0_generateAndRenderCards generateContent s) = msg_EmptyTopic
    \<and> (Active s \<longrightarrow>
         errorMessage (index_generateButton_click generateContent s) = msg_EmptyTopic)"
proof (cases "ai s")
  case None
  with assms show ?thesis
    by (simp add: requests_index_guard requests_part0_guard part0_empty_topic Active_def)
next
  case (Some c)
  with assms show ?thesis
    by (simp add: requests_index_guard requests_part0_guard part0_empty_topic
        index_empty_topic [of s c] Active_def)
qed

text \<open>A topic of three spaces on a page that holds a client.\<close>

theorem C5_blank_topic_witness:
  "trim (topicInput (ready_page\<lparr>topicInput := js ''   ''\<rparr>)) = []
   \<and> Active (ready_page\<lparr>topicInput := js ''   ''\<rparr>)
   \<and> requests (index_generateButton_click (answering colors_response)
        (ready_page\<lparr>topicInput := js ''   ''\<rparr>)) = []
   \<and> requests (part0_generateAndRenderCards (answering colors_response)
        (ready_page\<lparr>topicInput := js ''   ''\<rparr>)) = []
   \<and> errorMessage (part0_generateAndRenderCards (answering colors_response)
        (ready_page\<lparr>topicInput := js ''   ''\<rparr>)) = msg_EmptyTopic
   \<and> errorMessage (index_generateButton_click (answering colors_response)
        (ready_page\<lparr>topicInput := js ''   ''\<rparr>)) = msg_EmptyTopic"
proof -
  have h: "trim (topicInput (ready_page\<lparr>topicInput := js ''   ''\<rparr>)) = []"
    by (simp add: eval_simps)
  have a: "Active (ready_page\<lparr>topicInput := js ''   ''\<rparr>)"
    by (simp add: Active_def ready_page_facts)
  from C5_blank_topic [OF h, of "answering colors_response"] h a show ?thesis
    by (simp add: ready_page_facts)
qed

text \<open>
  \<open>generateAndRenderCards\<close> of the second file checks the topic before the client: on
  a page without a client, a topic of three spaces is answered with the message of an empty
  topic, not with the message that the client is not initialized.
\<close>

theorem C6_no_client_part0_counterexample:
  "ai (fresh_page\<lparr>topicInput := js ''   ''\<rparr>) = None
   \<and> errorMessage (part0_generateAndRenderCards (answering colors_response)
         (fresh_page\<lparr>topicInput := js ''   ''\<rparr>))
       = msg_EmptyTopic
   \<and> msg_EmptyTopic \<noteq> msg_NotInitialized"
proof -
  have "trim (topicInput (fresh_page\<lparr>topicInput := js ''   ''\<rparr>)) = []"
    by (simp add: eval_simps)
  then show ?thesis
    using messages_distinct(1) by (simp add: part0_empty_topic) (simp add: fresh_page_def)
qed

text \<open>
  C6, as the code has it: while no client is held, no request is sent to the completion
  service, whatever the topic. The click handler of \<open>index.tsx\<close> reports the missing
  client whatever the topic; \<open>generateAndRenderCards\<close> of the second file reports the
  missing client for a topic that is non-empty once trimmed, and the empty topic otherwise.
\<close>

theorem C6_no_client:
  assumes "ai s = None"
  shows "requests (index_generateButton_click generateContent s) = requests s
    \<and> requests (part0_generateAndRenderCards generateContent s) = requests s
    \<and> errorMessage (index_generateButton_click generateContent s) = msg_NotInitialized
    \<and> errorMessage (part0_generateAndRenderCards generateContent s) =
        (if trim (topicInput s) = [] then msg_EmptyTopic else msg_NotInitialized)"
  using assms
  by (simp add: requests_index_guard requests_part0_guard index_no_client part0_empty_topic
      part0_no_client)

text \<open>The topic \<open>Colors\<close> on a page without a client.\<close>

theorem C6_no_client_witness:
  "ai (fresh_page\<lparr>topicInput := js ''Colors''\<rparr>) = None
   \<and> requests (index_generateButton_click (answering colors_response)
        (fresh_page\<lparr>topicInput := js ''Colors''\<rparr>)) = []
   \<and> requests (part0_generateAndRenderCards (answering colors_response)
        (fresh_page\<lparr>topicInput := js ''Colors''\<rparr>)) = []
   \<and> errorMessage (index_generateButton_click (answering colors_response)
        (fresh_page\<lparr>topicInput := js ''Colors''\<rparr>)) = msg_NotInitialized
   \<and> errorMessage (part0_generateAndRenderCards (answering colors_response)
        (fresh_page\<lparr>topicInput := js ''Colors''\<rparr>)) = msg_NotInitialized"
proof -
  have h: "ai (fresh_page\<lparr>topicInput := js ''Colors''\<rparr>) = None"
    by (simp add: fresh_page_def)
  have r: "requests (fresh_page\<lparr>topicInput := js ''Colors''\<rparr>) = []"
    by (simp add: fresh_page_def)
  from C6_no_client [OF h, of "answering colors_response"] h r show ?thesis
    by (simp add: colors_facts)
qed


text \<open>
  C7: with a client held and a topic that is non-empty once trimmed, a response whose text
  is empty (or undefined) is reported as an empty response, and a non-empty response text
  from which no card parses is reported as yielding no valid flashcards; the two messages
  differ, in both files. The text of two line breaks is non-empty and parses to no card.
\<close>

theorem C7_empty_response_and_no_cards:
  assumes "ai s = Some client" and "trim (topicInput s) \<noteq> []"
  shows "(nullish_text r = []
          \<and> generateContent client (model_id, index_prompt (trim (topicInput s))) = Resolved r \<longrightarrow>
        errorMessage (index_generateButton_click generateContent s) = index_msg_EmptyResponse)
    \<and> (reply \<noteq> [] \<and> parseResponse reply = Inr []
          \<and> generateContent client (model_id, index_prompt (trim (topicInput s))) =
              Resolved (Some reply) \<longrightarrow>
        errorMessage (index_generateButton_click generateContent s) = index_msg_NoValidFlashcards)
    \<and> (nullish_text r = []
          \<and> generateContent client (model_id, part0_prompt (trim (topicInput s))) = Resolved r \<longrightarrow>
        errorMessage (part0_generateAndRenderCards generateContent s) =
          error_prefix @ part0_msg_EmptyResponse)
    \<and> (reply \<noteq> [] \<and> parseResponse reply = Inr []
          \<and> generateContent client (model_id, part0_prompt (trim (topicInput s))) =
              Resolved (Some reply) \<longrightarrow>
        errorMessage (part0_generateAndRenderCards generateContent s) = part0_msg_NoValidFlashcards)
    \<and> index_msg_EmptyResponse \<noteq> index_msg_NoValidFlashcards
    \<and> error_prefix @ part0_msg_EmptyResponse \<noteq> part0_msg_NoValidFlashcards
    \<and> nullish_text (Some []) = [] \<and> nullish_text None = []
    \<and> [newline, newline] \<noteq> [] \<and> parseResponse [newline, newline] = Inr []"
proof -
  have e: "nullish_text (Some []) = []" "nullish_text None = []"
    by (simp_all add: nullish_text_def)
  have b: "parseResponse [newline, newline] = Inr []"
    by (simp add: eval_simps)
  from assms index_empty_response [of s client generateContent r]
    index_rendered(1) [of s client generateContent reply "[]"]
    part0_empty_response [of s client generateContent r]
    part0_rendered(1) [of s client generateContent reply "[]"]
    messages_distinct(2,3) e b
  show ?thesis by simp
qed

text \<open>The empty text and the text of two line breaks, on a page that holds a client.\<close>

theorem C7_empty_response_and_no_cards_witness:
  "ai ready_page = Some (GoogleGenAI (js ''key'')) \<and> trim (topicInput ready_page) \<noteq> []
   \<and> errorMessage (index_generateButton_click (answering []) ready_page) = index_msg_EmptyResponse
   \<and> errorMessage (part0_generateAndRenderCards (answering []) ready_page) =
       error_prefix @ part0_msg_EmptyResponse
   \<and> errorMessage (index_generateButton_click (answering [newline, newline]) ready_page) =
       index_msg_NoValidFlashcards
   \<and> errorMessage (part0_generateAndRenderCards (answering [newline, newline]) ready_page) =
       part0_msg_NoValidFlashcards"
proof -
  have h: "ai ready_page = Some (GoogleGenAI (js ''key''))" "trim (topicInput ready_page) \<noteq> []"
    by (simp_all add: ready_page_facts colors_facts)
  from C7_empty_response_and_no_cards
      [OF h, of "Some []" "answering []" "[newline, newline]"]
    C7_empty_response_and_no_cards
      [OF h, of "Some []" "answering [newline, newline]" "[newline, newline]"] h
  show ?thesis by (simp add: answering_def)
qed

text \<open>
  C8: saving a key whose trimmed value is empty reports the empty secret and changes nothing
  else: no client is built, no key is stored. When the key is non-empty and building the
  client raises, the initialization error is reported, the client variable keeps its value,
  and no key is left in the session store (\<open>index.tsx\<close> removes the key it has just
  stored; the second file stores a key only after the client is built). So a gate that was
  Absent is left Absent, and is not Active.
\<close>

theorem C8_activation_failures:
  "(trim (apiKeyInput s) = [] \<longrightarrow>
      index_saveApiKeyButton_click newGoogleGenAI s = s\<lparr>errorMessage := msg_EmptySecret\<rparr>
      \<and> part0_saveApiKeyButton_click newGoogleGenAI generateContent s =
          s\<lparr>alerts := alerts s @ [msg_EmptySecret]\<rparr>)
   \<and> (trim (apiKeyInput s) \<noteq> [] \<and> newGoogleGenAI (trim (apiKeyInput s)) = Inl e \<longrightarrow>
      errorMessage (index_saveApiKeyButton_click newGoogleGenAI s) = msg_InitError
      \<and> ai (index_saveApiKeyButton_click newGoogleGenAI s) = ai s
      \<and> sessionStorage (index_saveApiKeyButton_click newGoogleGenAI s)
           API_KEY_SESSION_STORAGE_KEY = None
      \<and> part0_saveApiKeyButton_click newGoogleGenAI generateContent s =
           s\<lparr>errorMessage := msg_InitError\<rparr>
      \<and> (Absent s \<longrightarrow>
           Absent (index_saveApiKeyButton_click newGoogleGenAI s)
           \<and> \<not> Active (index_saveApiKeyButton_click newGoogleGenAI s)
           \<and> Absent (part0_saveApiKeyButton_click newGoogleGenAI generateContent s)
           \<and> \<not> Active (part0_saveApiKeyButton_click newGoogleGenAI generateContent s)))"
  using index_save_failed [of s newGoogleGenAI e]
    part0_save_failed [of s newGoogleGenAI e generateContent]
  by (simp add: index_save_empty part0_save_empty Absent_def Active_def)

text \<open>A key of three spaces, and a key whose client cannot be built, on a fresh page.\<close>

theorem C8_activation_failures_witness:
  "trim (apiKeyInput (fresh_page\<lparr>apiKeyInput := js ''   ''\<rparr>)) = []
   \<and> errorMessage (index_saveApiKeyButton_click raising (fresh_page\<lparr>apiKeyInput := js ''   ''\<rparr>))
       = msg_EmptySecret
   \<and> alerts (part0_saveApiKeyButton_click raising (answering colors_response)
        (fresh_page\<lparr>apiKeyInput := js ''   ''\<rparr>)) = [msg_EmptySecret]
   \<and> trim (apiKeyInput (fresh_page\<lparr>apiKeyInput := js '' key ''\<rparr>)) = js ''key''
   \<and> Absent (fresh_page\<lparr>apiKeyInput := js '' key ''\<rparr>)
   \<and> errorMessage (index_saveApiKeyButton_click raising (fresh_page\<lparr>apiKeyInput := js '' key ''\<rparr>))
       = msg_InitError
   \<and> Absent (index_saveApiKeyButton_click raising (fresh_page\<lparr>apiKeyInput := js '' key ''\<rparr>))
   \<and> errorMessage (part0_saveApiKeyButton_click raising (answering colors_response)
        (fresh_page\<lparr>apiKeyInput := js '' key ''\<rparr>)) = msg_InitError
   \<and> Absent (part0_saveApiKeyButton_click raising (answering colors_response)
        (fresh_page\<lparr>apiKeyInput := js '' key ''\<rparr>))"
proof -
  let ?blank = "fresh_page\<lparr>apiKeyInput := js ''   ''\<rparr>"
  let ?bad = "fresh_page\<lparr>apiKeyInput := js '' key ''\<rparr>"
  have h1: "trim (apiKeyInput ?blank) = []"
    by (simp add: eval_simps)
  have h2: "trim (apiKeyInput ?bad) = js ''key''" "js ''key'' \<noteq> []"
    by (simp_all add: eval_simps)
  have h3: "raising (js ''key'') = Inl (Error (js ''An API Key must be set when running in a browser''))"
    by (simp add: raising_def)
  have h4: "Absent ?bad" "alerts ?blank = []"
    by (simp_all add: Absent_def fresh_page_def)
  from C8_activation_failures [of ?blank raising "answering colors_response"]
    C8_activation_failures [of ?bad raising "answering colors_response"
      "Error (js ''An API Key must be set when running in a browser'')"] h1 h2 h3 h4
  show ?thesis by (simp add: Absent_def)
qed

text \<open>
  The handler of \<open>index.tsx\<close> reports an invalid key but resets nothing: on a page
  that holds a client and a stored key, a rejection whose message holds the marker leaves both
  in place, so the gate is not Absent afterwards.
\<close>

theorem C4_invalid_key_index_counterexample:
  "message invalid_key_error = Some (js ''API key not valid. Please pass a valid API key.'')
   \<and> includes_str (js ''API key not valid. Please pass a valid API key.'') invalid_key_marker
   \<and> errorMessage (index_generateButton_click (rejecting invalid_key_error) ready_page) =
       error_prefix @ index_msg_CredentialInvalid
   \<and> \<not> Absent (index_generateButton_click (rejecting invalid_key_error) ready_page)"
proof -
  have m: "message invalid_key_error = Some (js ''API key not valid. Please pass a valid API key.'')"
    by (simp add: invalid_key_error_def)
  have i: "includes_str (js ''API key not valid. Please pass a valid API key.'') invalid_key_marker"
    by (simp add: invalid_key_marker_def js_def)
  have t: "trim (topicInput ready_page) \<noteq> []"
    by (simp add: ready_page_facts colors_facts)
  have r: "rejecting invalid_key_error (GoogleGenAI (js ''key''))
      (model_id, index_prompt (trim (topicInput ready_page))) = Rejected invalid_key_error"
    by (simp add: rejecting_def)
  note k = index_invalid_key [of ready_page _ "rejecting invalid_key_error" invalid_key_error,
      OF ready_page_facts(1) t r m i]
  show ?thesis
    using m i by (simp add: k Absent_def ready_page_facts)
qed

text \<open>
  C4, as the code has it: when the completion service rejects with a message that holds the
  invalid-key marker, both files show the specific invalid-key message instead of the
  message of the service. \<open>generateAndRenderCards\<close> of the second file also removes
  the key from the session store and drops the client, leaving the gate Absent; the handler
  of \<open>index.tsx\<close> leaves the client and the session store as they were.
\<close>

theorem C4_invalid_key:
  assumes "message error = Some m" and "includes_str m invalid_key_marker"
    and "ai s = Some client" and "trim (topicInput s) \<noteq> []"
  shows "(generateContent client (model_id, part0_prompt (trim (topicInput s))) = Rejected error \<longrightarrow>
        errorMessage (part0_generateAndRenderCards generateContent s) =
          error_prefix @ part0_msg_CredentialInvalid
        \<and> Absent (part0_generateAndRenderCards generateContent s)
        \<and> \<not> Active (part0_generateAndRenderCards generateContent s))
    \<and> (generateContent client (model_id, index_prompt (trim (topicInput s))) = Rejected error \<longrightarrow>
        errorMessage (index_generateButton_click generateContent s) =
          error_prefix @ index_msg_CredentialInvalid
        \<and> ai (index_generateButton_click generateContent s) = ai s
        \<and> sessionStorage (index_generateButton_click generateContent s) = sessionStorage s)"
  using index_invalid_key [of s client generateContent error m]
    part0_invalid_key [of s client generateContent error m] assms
  by (simp add: Absent_def Active_def)

text \<open>A service that refuses the key, on a page that holds a client and a stored key.\<close>

theorem C4_invalid_key_witness:
  "message invalid_key_error = Some (js ''API key not valid. Please pass a valid API key.'')
   \<and> includes_str (js ''API key not valid. Please pass a valid API key.'') invalid_key_marker
   \<and> ai ready_page = Some (GoogleGenAI (js ''key'')) \<and> trim (topicInput ready_page) \<noteq> []
   \<and> errorMessage (part0_generateAndRenderCards (rejecting invalid_key_error) ready_page) =
       error_prefix @ part0_msg_CredentialInvalid
   \<and> Absent (part0_generateAndRenderCards (rejecting invalid_key_error) ready_page)
   \<and> errorMessage (index_generateButton_click (rejecting invalid_key_error) ready_page) =
       error_prefix @ index_msg_CredentialInvalid
   \<and> sessionStorage (index_generateButton_click (rejecting invalid_key_error) ready_page)
        API_KEY_SESSION_STORAGE_KEY = Some (js ''key'')"
proof -
  have m: "message invalid_key_error = Some (js ''API key not valid. Please pass a valid API key.'')"
    by (simp add: invalid_key_error_def)
  have i: "includes_str (js ''API key not valid. Please pass a valid API key.'') invalid_key_marker"
    by (simp add: invalid_key_marker_def js_def)
  have t: "trim (topicInput ready_page) \<noteq> []"
    by (simp add: ready_page_facts colors_facts)
  from C4_invalid_key [OF m i ready_page_facts(1) t, of "rejecting invalid_key_error"] m i t
  show ?thesis by (simp add: rejecting_def ready_page_facts)
qed

end
